theory Spec2Isabelle
  imports Complex_Main "HOL-Library.Sublist"
begin

section \<open>Python values\<close>

text \<open>
  The values that reach the item: what \<^verbatim>\<open>json.loads\<close> returns (dict, list, str, int,
  float, bool, None) and what the selectors return (str, lists of str, None).

  A Python \<^verbatim>\<open>str\<close> is modelled as a \<open>string\<close> whose characters are read as the code
  points 0 to 255. A dict is an association list in insertion order with distinct keys;
  looking a key up is \<open>map_of\<close>.

  A float is a finite value, negative zero, an infinity, or the one \<^verbatim>\<open>NaN\<close> object of
  the \<^verbatim>\<open>json\<close> module (\<^verbatim>\<open>json.decoder.NaN\<close>, which the decoder returns for every
  \<^verbatim>\<open>NaN\<close> literal).
\<close>

datatype pyfloat = Fin rat | NegZero | PosInf | NegInf | NaN

datatype pyval =
    JNull
  | JBool bool
  | JInt int
  | JFloat pyfloat
  | JStr string
  | JList "pyval list"
  | JDict "(string \<times> pyval) list"

datatype py_error =
  ValueError | IndexError | JSONDecodeError | AttributeError | RecursionError

text \<open>Truth value of an object, as \<^verbatim>\<open>if x\<close>, \<^verbatim>\<open>not x\<close> and \<^verbatim>\<open>x or y\<close> test it.\<close>

fun py_truthy :: "pyval \<Rightarrow> bool" where
  "py_truthy JNull = False"
| "py_truthy (JBool b) = b"
| "py_truthy (JInt i) = (i \<noteq> 0)"
| "py_truthy (JFloat f) = (f \<noteq> Fin 0 \<and> f \<noteq> NegZero)"
| "py_truthy (JStr s) = (s \<noteq> [])"
| "py_truthy (JList xs) = (xs \<noteq> [])"
| "py_truthy (JDict kvs) = (kvs \<noteq> [])"

definition py_or :: "pyval \<Rightarrow> pyval \<Rightarrow> pyval" where
  "py_or a b = (if py_truthy a then a else b)"

text \<open>
  Equality. \<open>num_of\<close> is the numeric value of a bool, an int or a float (Python compares
  the three exactly, and \<^verbatim>\<open>-0.0 == 0\<close>). \<open>py_same_or_eq\<close> is the comparison that lists
  and dicts apply to their elements, \<^verbatim>\<open>x is y or x == y\<close>: it differs from \<^verbatim>\<open>==\<close> only
  on \<^verbatim>\<open>NaN\<close>, which is one object and so equal to itself inside a container, while
  \<^verbatim>\<open>NaN == NaN\<close> is false.
\<close>

fun num_of :: "pyval \<Rightarrow> pyfloat option" where
  "num_of (JBool b) = Some (Fin (if b then 1 else 0))"
| "num_of (JInt i) = Some (Fin (of_int i))"
| "num_of (JFloat f) = Some (if f = NegZero then Fin 0 else f)"
| "num_of _ = None"

definition scalar_eq :: "pyval \<Rightarrow> pyval \<Rightarrow> bool" where
  "scalar_eq a b =
     (case num_of a of
        Some x \<Rightarrow> num_of b = Some x
      | None \<Rightarrow>
          (case a of
             JNull \<Rightarrow> b = JNull
           | JStr s \<Rightarrow> b = JStr s
           | _ \<Rightarrow> False))"

fun py_same_or_eq :: "pyval \<Rightarrow> pyval \<Rightarrow> bool"
and list_eq :: "pyval list \<Rightarrow> pyval list \<Rightarrow> bool"
and dict_sub :: "(string \<times> pyval) list \<Rightarrow> (string \<times> pyval) list \<Rightarrow> bool"
and key_eq :: "string \<Rightarrow> pyval \<Rightarrow> (string \<times> pyval) list \<Rightarrow> bool" where
  "py_same_or_eq (JList xs) (JList ys) = list_eq xs ys"
| "py_same_or_eq (JDict xs) (JDict ys) = (length xs = length ys \<and> dict_sub xs ys)"
| "py_same_or_eq a b = scalar_eq a b"
| "list_eq [] [] = True"
| "list_eq (x # xs) (y # ys) = (py_same_or_eq x y \<and> list_eq xs ys)"
| "list_eq _ _ = False"
| "dict_sub [] ys = True"
| "dict_sub ((k, v) # xs) ys = (key_eq k v ys \<and> dict_sub xs ys)"
| "key_eq k v [] = False"
| "key_eq k v ((k', w) # ys) = (if k = k' then py_same_or_eq v w else key_eq k v ys)"

definition py_eq :: "pyval \<Rightarrow> pyval \<Rightarrow> bool" where
  "py_eq a b = (a \<noteq> JFloat NaN \<and> b \<noteq> JFloat NaN \<and> py_same_or_eq a b)"

definition py_ne :: "pyval \<Rightarrow> pyval \<Rightarrow> bool" where
  "py_ne a b = (\<not> py_eq a b)"

subsection \<open>String methods\<close>

text \<open>
  \<^verbatim>\<open>s.split(sep)\<close> for a non-empty separator: the pieces between the occurrences of
  \<open>sep\<close>, found from the left without overlap. The result is never empty. Every call
  in the spider passes a non-empty literal.
\<close>

fun split_aux :: "string \<Rightarrow> string \<Rightarrow> string \<Rightarrow> string list" where
  "split_aux sep acc [] = [rev acc]"
| "split_aux sep acc (c # cs) =
     (if sep \<noteq> [] \<and> prefix sep (c # cs)
      then rev acc # split_aux sep [] (drop (length sep) (c # cs))
      else split_aux sep (c # acc) cs)"

definition py_split :: "string \<Rightarrow> string \<Rightarrow> string list" where
  "py_split s sep = split_aux sep [] s"

text \<open>\<^verbatim>\<open>xs[i]\<close> for \<open>i \<ge> 0\<close>: IndexError out of range.\<close>

definition py_index :: "'a list \<Rightarrow> nat \<Rightarrow> py_error + 'a" where
  "py_index xs i = (if i < length xs then Inr (xs ! i) else Inl IndexError)"

text \<open>\<^verbatim>\<open>str.isspace\<close> on the code points below 256, and the two strips.\<close>

definition isspace :: "char \<Rightarrow> bool" where
  "isspace c = ((of_char c :: nat) \<in> {9, 10, 11, 12, 13, 28, 29, 30, 31, 32, 133, 160})"

definition py_strip :: "string \<Rightarrow> string" where
  "py_strip s = rev (dropWhile isspace (rev (dropWhile isspace s)))"

definition py_rstrip :: "string \<Rightarrow> string \<Rightarrow> string" where
  "py_rstrip s chars = rev (dropWhile (\<lambda>c. c \<in> set chars) (rev s))"

subsection \<open>Dictionaries\<close>

text \<open>
  \<^verbatim>\<open>d.get(k, default)\<close>. The receiver comes out of the decoded JSON and may be any
  value; only a dict has the method, everything else raises AttributeError.
\<close>

definition lookup :: "(string \<times> pyval) list \<Rightarrow> string \<Rightarrow> pyval \<Rightarrow> pyval" where
  "lookup kvs k dflt = (case map_of kvs k of None \<Rightarrow> dflt | Some v \<Rightarrow> v)"

definition dict_get :: "pyval \<Rightarrow> string \<Rightarrow> pyval \<Rightarrow> py_error + pyval" where
  "dict_get d k dflt =
     (case d of JDict kvs \<Rightarrow> Inr (lookup kvs k dflt) | _ \<Rightarrow> Inl AttributeError)"

text \<open>
  \<^verbatim>\<open>d[k] = v\<close> as a dict comprehension performs it: an existing key keeps its place and
  takes the new value, a new key goes to the end.
\<close>

fun dict_set :: "(string \<times> pyval) list \<Rightarrow> string \<Rightarrow> pyval \<Rightarrow> (string \<times> pyval) list" where
  "dict_set [] k v = [(k, v)]"
| "dict_set (p # ps) k v = (if fst p = k then (k, v) # ps else p # dict_set ps k v)"

definition dict_of :: "(string \<times> pyval) list \<Rightarrow> (string \<times> pyval) list" where
  "dict_of kvs = foldl (\<lambda>d (k, v). dict_set d k v) [] kvs"

section \<open>The item (items.py)\<close>

text \<open>
  \<^verbatim>\<open>TargetItem\<close> declares eleven fields. A field holds \<open>None\<close> until it is assigned;
  every field the spider assigns is declared, so no assignment raises KeyError.
\<close>

record TargetItem =
  product_name :: "pyval option"
  categories :: "pyval option"
  model_no :: "pyval option"
  tcin_id :: "pyval option"
  images :: "pyval option"
  specifications :: "pyval option"
  description :: "pyval option"
  variant :: "pyval option"
  price :: "pyval option"
  discount_price :: "pyval option"
  sellers :: "pyval option"

definition new_item :: TargetItem where
  "new_item = \<lparr>product_name = None, categories = None, model_no = None, tcin_id = None,
     images = None, specifications = None, description = None, variant = None,
     price = None, discount_price = None, sellers = None\<rparr>"

section \<open>Response, logger and spider state\<close>

text \<open>
  A response is its URL, its body text and its selector method: \<open>xpath r q\<close> is the list
  of strings that \<^verbatim>\<open>response.xpath(q).getall()\<close> returns, and \<^verbatim>\<open>.get()\<close> is the
  first of them or None. The XPath engine and \<^verbatim>\<open>json.loads\<close> belong to libraries, so
  the selector results are part of the response and the decoder is a parameter. The
  decoder returns the decoded value or the exception it raises: JSONDecodeError for a
  text that is not JSON, and also RecursionError (nesting too deep) or a plain
  ValueError (an integer literal with too many digits), which are not JSONDecodeError.
\<close>

record response =
  url :: string
  "text" :: string
  xpath :: "string \<Rightarrow> string list"

definition getall :: "response \<Rightarrow> string \<Rightarrow> string list" where
  "getall r q = xpath r q"

definition get :: "response \<Rightarrow> string \<Rightarrow> string option" where
  "get r q = (case xpath r q of [] \<Rightarrow> None | x # _ \<Rightarrow> Some x)"

type_synonym loads = "string \<Rightarrow> py_error + pyval"

definition str_truthy :: "string option \<Rightarrow> bool" where
  "str_truthy x = (case x of None \<Rightarrow> False | Some s \<Rightarrow> s \<noteq> [])"

definition str_val :: "string option \<Rightarrow> pyval" where
  "str_val x = (case x of None \<Rightarrow> JNull | Some s \<Rightarrow> JStr s)"

text \<open>\<^verbatim>\<open>a or b\<close> and \<^verbatim>\<open>x.strip() if x else None\<close> on a selector's \<^verbatim>\<open>.get()\<close>.\<close>

definition str_or :: "string option \<Rightarrow> string option \<Rightarrow> string option" where
  "str_or a b = (if str_truthy a then a else b)"

definition strip_or_none :: "string option \<Rightarrow> pyval" where
  "strip_or_none x =
     (case x of None \<Rightarrow> JNull | Some s \<Rightarrow> if s \<noteq> [] then JStr (py_strip s) else JNull)"

text \<open>
  A log record is its level, the literal part of the message and the interpolated value
  (kept as a value rather than rendered into the message).
\<close>

datatype level = DEBUG | INFO | WARNING

datatype payload = NoValue | Value pyval | Fields TargetItem

type_synonym log_entry = "level \<times> string \<times> payload"

record spider =
  start_urls :: "string list"
  use_splash :: bool
  logger :: "log_entry list"

definition log_to :: "spider \<Rightarrow> log_entry list \<Rightarrow> spider" where
  "log_to sp es = sp\<lparr>logger := logger sp @ es\<rparr>"

section \<open>The spider (spiders/target-spider)\<close>

subsection \<open>Construction\<close>

text \<open>
  \<^verbatim>\<open>__init__(self, url=None)\<close>, lines 13 to 22. The base class leaves \<^verbatim>\<open>start_urls\<close>
  empty and provides the logger. \<open>splash\<close> says whether \<^verbatim>\<open>scrapy_splash\<close> could be
  imported (\<^verbatim>\<open>SplashRequest is not None\<close>). The URL is tested for truth, so the empty
  string is refused like a missing argument.
\<close>

definition init :: "bool \<Rightarrow> string option \<Rightarrow> py_error + spider" where
  "init splash arg =
     (let self = \<lparr>start_urls = [], use_splash = False, logger = []\<rparr> in
      case arg of
        None \<Rightarrow> Inl ValueError
      | Some u \<Rightarrow>
          if u = [] then Inl ValueError
          else (let self = self\<lparr>start_urls := [u]\<rparr>;
                    self = self\<lparr>use_splash := splash\<rparr>
                in Inr (if \<not> use_splash self
                        then log_to self [(WARNING,
                               ''Scrapy-Splash not installed. Falling back to static HTML parsing, which may miss JS-rendered content.'',
                               NoValue)]
                        else self)))"

subsection \<open>The selectors\<close>

definition script_xpath :: string where
  \<open>script_xpath = ''//script[contains(text(), "window.__INITIAL_STATE__")]/text()''\<close>

definition name_xpath :: string where
  \<open>name_xpath = ''//h1[contains(@class, "Heading")]/text()''\<close>

definition categories_xpath :: string where
  \<open>categories_xpath =
     ''//nav[@aria-label="Breadcrumbs"]//a[@data-test="@web/Breadcrumbs/BreadcrumbLink"]/text()''\<close>

definition images_xpath :: string where
  \<open>images_xpath = ''//div[contains(@class, "styles_zoomableImage__R_OOf")]//img/@src''\<close>

definition specs_xpath :: string where
  \<open>specs_xpath = ''//div[@data-test="item-details-specifications"]//div/div/div[1]/b/text()''\<close>

definition specs_values_xpath :: string where
  \<open>specs_values_xpath =
     ''//div[@data-test="item-details-specifications"]//div/div/div[1]/text()''\<close>

definition fallback_specs_xpath :: string where
  \<open>fallback_specs_xpath = ''//div[@data-test="item-details-specifications"]//div//text()''\<close>

definition description_xpath1 :: string where
  \<open>description_xpath1 =
     ''//div[contains(@class, "h-margin-t-x2") and @data-test="item-details-description"]//text()''\<close>

definition description_xpath2 :: string where
  \<open>description_xpath2 =
     ''//h4[contains(@class, "styles_ndsHeading__HcGpD") and contains(text(), "Description")]/following-sibling::div//div[contains(@class, "h-margin-t-x2")]//text()''\<close>

definition description_xpath3 :: string where
  \<open>description_xpath3 = ''//meta[@name="description"]/@content''\<close>

text \<open>The five price selectors, in the order of lines 119 to 131, and their log messages.\<close>

definition price_xpaths :: "string list" where
  \<open>price_xpaths =
     [''//span[@data-test="product-price"]/text()'',
      ''//span[contains(@class, "sc-4d225cde-1")]/text()'',
      ''//span[@data-test="product-price"]//text()'',
      ''//div[contains(@class, "price")]//span/text()'',
      ''//span[contains(text(), "$")]/text()'']\<close>

definition price_messages :: "string list" where
  \<open>price_messages =
     [''Price attempt 1 (data-test product-price): '',
      ''Price attempt 2 (class sc-4d225cde-1): '',
      ''Price attempt 3 (nested product-price): '',
      ''Price attempt 4 (generic price class): '',
      ''Price attempt 5 (any $): '']\<close>

definition sale_xpath1 :: string where
  \<open>sale_xpath1 = ''//span[@data-test="sale-price"]/text()''\<close>

definition sale_xpath2 :: string where
  \<open>sale_xpath2 = ''//span[contains(@class, "sale-price")]/text()''\<close>

subsection \<open>The HTML fallback\<close>

text \<open>Lines 79 and 80: the breadcrumb texts, stripped, the blank ones dropped.\<close>

definition fallback_categories :: "response \<Rightarrow> pyval" where
  "fallback_categories r =
     (let cats = getall r categories_xpath in
      if cats \<noteq> []
      then JList (map (\<lambda>cat. JStr (py_strip cat)) (filter (\<lambda>cat. py_strip cat \<noteq> []) cats))
      else JList [])"

text \<open>
  Lines 91 to 106: labels zipped with values into a dict; when that dict is empty, every
  text node under the specifications block becomes a key with an empty value.
\<close>

definition fallback_specifications :: "response \<Rightarrow> pyval \<times> log_entry list" where
  "fallback_specifications r =
     (let specs = getall r specs_xpath;
          specs_values = getall r specs_values_xpath;
          specs_dict = dict_of (map (\<lambda>(spec, val). (py_strip spec, JStr (py_strip val)))
                                   (zip specs specs_values));
          (specs_dict, lg) =
            (if specs_dict = []
             then (dict_of (map (\<lambda>spec. (py_strip spec, JStr []))
                                (getall r fallback_specs_xpath)),
                   [(WARNING,
                     ''No specifications found with primary XPath. Attempting fallback...'',
                     NoValue)])
             else (specs_dict, []))
      in (JDict specs_dict,
          lg @ [(INFO, ''Final specifications: '', Value (JDict specs_dict))]))"

text \<open>
  Lines 110 to 115: two lists of text nodes, each given up when it is empty or all
  blank, then the meta description; an empty or missing result becomes the empty string.
\<close>

definition blank :: "string list \<Rightarrow> bool" where
  "blank ds = (ds = [] \<or> \<not> list_ex (\<lambda>d. py_strip d \<noteq> []) ds)"

definition fallback_description :: "response \<Rightarrow> pyval" where
  "fallback_description r =
     (let ds = getall r description_xpath1;
          ds = (if blank ds then getall r description_xpath2 else ds);
          d = (if blank ds then str_val (get r description_xpath3)
               else JList (map JStr ds))
      in if py_truthy d then d else JStr [])"

text \<open>
  Lines 119 to 134. The first selector is always evaluated; each of the other four is
  evaluated, and its debug message logged, only when \<^verbatim>\<open>not price\<close> holds at that point.
\<close>

definition price_try :: "response \<Rightarrow> nat \<Rightarrow> string option \<times> log_entry list" where
  "price_try r k =
     (let p = get r (price_xpaths ! k)
      in (p, [(DEBUG, price_messages ! k, Value (str_val p))]))"

definition price_retry ::
  "response \<Rightarrow> nat \<Rightarrow> string option \<times> log_entry list \<Rightarrow> string option \<times> log_entry list" where
  "price_retry r k st =
     (case st of (p, lg) \<Rightarrow>
        if \<not> str_truthy p
        then (case price_try r k of (p', lg') \<Rightarrow> (p', lg @ lg'))
        else (p, lg))"

definition fallback_price :: "response \<Rightarrow> pyval \<times> log_entry list" where
  "fallback_price r =
     (case price_retry r 4 (price_retry r 3 (price_retry r 2 (price_retry r 1 (price_try r 0))))
      of (p, lg) \<Rightarrow>
        (let v = strip_or_none p
         in (v, lg @ [(DEBUG, ''Final extracted price: '', Value v)])))"

text \<open>Lines 137 to 139.\<close>

definition fallback_discount_price :: "response \<Rightarrow> pyval" where
  "fallback_discount_price r =
     strip_or_none (str_or (get r sale_xpath1) (get r sale_xpath2))"

text \<open>
  \<^verbatim>\<open>_parse_fallback(self, response, item)\<close>, lines 74 to 144. It assigns every field
  but \<^verbatim>\<open>variant\<close> and \<^verbatim>\<open>tcin_id\<close>, and no statement of it can raise.
\<close>

definition parse_fallback :: "spider \<Rightarrow> response \<Rightarrow> TargetItem \<Rightarrow> spider \<times> TargetItem" where
  "parse_fallback self r item =
     (let item = item\<lparr>product_name := Some (str_val (get r name_xpath))\<rparr>;
          item = item\<lparr>categories := Some (fallback_categories r)\<rparr>;
          item = item\<lparr>model_no :=
                   Some (JStr (hd (py_split (last (py_split (url r) ''/-/A-'')) ''#'')))\<rparr>;
          item = item\<lparr>images := Some (JList (map JStr (getall r images_xpath)))\<rparr>;
          (specs, lg1) = fallback_specifications r;
          item = item\<lparr>specifications := Some specs\<rparr>;
          self = log_to self lg1;
          item = item\<lparr>description := Some (fallback_description r)\<rparr>;
          (pr, lg2) = fallback_price r;
          item = item\<lparr>price := Some pr\<rparr>;
          self = log_to self lg2;
          item = item\<lparr>discount_price := Some (fallback_discount_price r)\<rparr>;
          item = item\<lparr>sellers := Some (JList [JStr ''Target''])\<rparr>;
          self = log_to self [(INFO, ''Final extracted item: '', Fields item)]
      in (self, item))"

subsection \<open>The JSON blob\<close>

text \<open>
  The body of the \<^verbatim>\<open>try\<close>, lines 47 to 63, in its two halves. Lines 47 and 48 cut
  the text after the first \<^verbatim>\<open>window.__INITIAL_STATE__ = \<close> out of the script and
  decode it: IndexError when the script has no such assignment, otherwise whatever the
  decoder raises. Both happen before the first assignment to the item.
\<close>

definition load_blob :: "loads \<Rightarrow> string \<Rightarrow> py_error + pyval" where
  "load_blob json_loads script_data =
     (case py_index (py_split script_data ''window.__INITIAL_STATE__ = '') 1 of
        Inl e \<Rightarrow> Inl e
      | Inr piece \<Rightarrow>
          (let json_data = py_rstrip (py_strip piece) '';'' in
           case json_loads json_data of
             Inl e \<Rightarrow> Inl e
           | Inr data \<Rightarrow> Inr data))"

text \<open>
  Lines 49 to 63 copy the decoded values into the item. A decoded value of the wrong
  shape raises AttributeError at the first \<^verbatim>\<open>.get\<close> applied to something that is not
  a dict; a missing key gives the default of its \<^verbatim>\<open>.get\<close>.
\<close>

definition fill_item :: "pyval \<Rightarrow> TargetItem \<Rightarrow> py_error + TargetItem \<times> log_entry list" where
  "fill_item data item =
     (case dict_get data ''product'' (JDict []) of
        Inl e \<Rightarrow> Inl e
      | Inr product \<Rightarrow>
     (case dict_get product ''details'' (JDict []) of
        Inl e \<Rightarrow> Inl e
      | Inr product_data \<Rightarrow>
     (case dict_get product ''price'' (JDict []) of
        Inl e \<Rightarrow> Inl e
      | Inr price_data \<Rightarrow>
     (case product_data of
        JDict details \<Rightarrow>
          (let item = item\<lparr>product_name := Some (lookup details ''title'' JNull)\<rparr>;
               item = item\<lparr>categories := Some (lookup details ''categories'' (JList []))\<rparr>;
               item = item\<lparr>model_no := Some (lookup details ''modelNumber'' JNull)\<rparr>;
               item = item\<lparr>images := Some (lookup details ''images'' (JList []))\<rparr>;
               item = item\<lparr>specifications :=
                        Some (lookup details ''specifications'' (JList []))\<rparr>;
               item = item\<lparr>description := Some (lookup details ''description'' (JStr []))\<rparr>;
               item = item\<lparr>variant := Some (lookup details ''variant'' (JStr []))\<rparr>
           in case price_data of
                JDict prices \<Rightarrow>
                  (let item = item\<lparr>price :=
                          Some (py_or (lookup prices ''current_retail'' JNull)
                                 (py_or (lookup prices ''formatted_current_price'' JNull)
                                        (lookup prices ''price'' JNull)))\<rparr>;
                       item = item\<lparr>discount_price :=
                          Some (if py_ne (lookup prices ''current_retail_min'' JNull)
                                         (lookup prices ''current_retail'' JNull)
                                then lookup prices ''current_retail_min'' JNull
                                else JNull)\<rparr>;
                       item = item\<lparr>sellers := Some (JList [JStr ''Target''])\<rparr>
                   in Inr (item,
                           [(INFO, ''JSON price data: '', Value price_data),
                            (INFO, ''Data extracted from JSON'', NoValue)]))
              | _ \<Rightarrow> Inl AttributeError)
      | _ \<Rightarrow> Inl AttributeError))))"

definition parse_json ::
  "loads \<Rightarrow> string \<Rightarrow> TargetItem \<Rightarrow> py_error + TargetItem \<times> log_entry list" where
  "parse_json json_loads script_data item =
     (case load_blob json_loads script_data of
        Inl e \<Rightarrow> Inl e
      | Inr data \<Rightarrow> fill_item data item)"

subsection \<open>parse\<close>

text \<open>
  \<^verbatim>\<open>parse(self, response)\<close>, lines 33 to 72. The generator yields once, as its last
  statement, so a run is the yielded item or the exception that escapes before the
  yield, together with the spider afterwards. The two \<^verbatim>\<open>split\<close> results of line 40
  are never empty, so \<^verbatim>\<open>[-1]\<close> and \<^verbatim>\<open>[0]\<close> are \<open>last\<close> and \<open>hd\<close>.
\<close>

definition caught :: "py_error \<Rightarrow> bool" where
  "caught e = (e = JSONDecodeError \<or> e = IndexError)"

definition parse :: "loads \<Rightarrow> spider \<Rightarrow> response \<Rightarrow> spider \<times> (py_error + TargetItem)" where
  "parse json_loads self r =
     (let item = new_item;
          self = log_to self [(DEBUG, ''Raw HTML response: '', Value (JStr (take 5000 (text r))))];
          tcin = hd (py_split (last (py_split (url r) ''/-/A-'')) ''#'');
          item = item\<lparr>tcin_id := Some (JStr tcin)\<rparr>;
          script_data = get r script_xpath;
          no_json =
            (case parse_fallback
                    (log_to self [(INFO, ''No JSON data found, using fallback'', NoValue)])
                    r item
             of (self, item) \<Rightarrow> (self, Inr item));
          (self, res) =
            (case script_data of
               None \<Rightarrow> no_json
             | Some script_text \<Rightarrow>
                 if script_text = [] then no_json
                 else (case parse_json json_loads script_text item of
                         Inr (item, lg) \<Rightarrow> (log_to self lg, Inr item)
                       | Inl e \<Rightarrow>
                           if caught e
                           then (case parse_fallback
                                        (log_to self
                                           [(WARNING, ''JSON parsing failed, using fallback'', NoValue)])
                                        r item
                                 of (self, item) \<Rightarrow> (self, Inr item))
                           else (self, Inl e)))
      in case res of
           Inl e \<Rightarrow> (self, Inl e)
         | Inr item \<Rightarrow>
             (log_to self [(INFO, ''Final extracted item: '', Fields item)], Inr item))"

text \<open>
  The item as \<open>parse\<close> holds it after line 41, and the branch it takes next.
  \<open>blob_of\<close> is the decoded blob when the script is found and decodes. The fallback runs
  when there is no script, or when lines 47 and 48 raise one of the two exceptions that
  line 64 catches. Any other exception of lines 47 and 48 escapes.
\<close>

definition first_item :: "response \<Rightarrow> TargetItem" where
  "first_item r =
     new_item\<lparr>tcin_id := Some (JStr (hd (py_split (last (py_split (url r) ''/-/A-'')) ''#'')))\<rparr>"

definition blob_of :: "loads \<Rightarrow> response \<Rightarrow> pyval option" where
  "blob_of json_loads r =
     (case get r script_xpath of
        None \<Rightarrow> None
      | Some script_text \<Rightarrow>
          if script_text = [] then None
          else (case load_blob json_loads script_text of
                  Inl e \<Rightarrow> None
                | Inr data \<Rightarrow> Some data))"

definition takes_fallback :: "loads \<Rightarrow> response \<Rightarrow> bool" where
  "takes_fallback json_loads r =
     (case get r script_xpath of
        None \<Rightarrow> True
      | Some script_text \<Rightarrow>
          if script_text = [] then True
          else (case load_blob json_loads script_text of
                  Inl e \<Rightarrow> caught e
                | Inr data \<Rightarrow> False))"

text \<open>The log records that one run of \<open>parse\<close> adds.\<close>

definition new_log :: "loads \<Rightarrow> spider \<Rightarrow> response \<Rightarrow> log_entry list" where
  "new_log json_loads self r = drop (length (logger self)) (logger (fst (parse json_loads self r)))"

section \<open>The specification's words\<close>

text \<open>
  The text after the last occurrence of a separator: the text after the last occurrence
  in the tail when there is one, otherwise the text after an occurrence at the head.
  \<open>None\<close> when the separator does not occur.
\<close>

fun after_last :: "string \<Rightarrow> string \<Rightarrow> string option" where
  "after_last sep [] = (if prefix sep [] then Some [] else None)"
| "after_last sep (c # cs) =
     (case after_last sep cs of
        Some t \<Rightarrow> Some t
      | None \<Rightarrow> if prefix sep (c # cs) then Some (drop (length sep) (c # cs)) else None)"

definition truncate_at :: "char \<Rightarrow> string \<Rightarrow> string" where
  "truncate_at c s = takeWhile (\<lambda>x. x \<noteq> c) s"

definition url_tcin :: "string \<Rightarrow> string" where
  "url_tcin u =
     truncate_at (CHR ''#'') (case after_last ''/-/A-'' u of None \<Rightarrow> u | Some t \<Rightarrow> t)"

text \<open>
  A selector attempt yields a value when its \<^verbatim>\<open>.get()\<close> is a non-empty string. The
  price of the ordered attempts is the stripped value of the first that yields one.
\<close>

definition yields :: "string option \<Rightarrow> bool" where
  "yields x = (x \<noteq> None \<and> x \<noteq> Some [])"

definition first_yield :: "string option list \<Rightarrow> pyval" where
  "first_yield xs =
     (case find yields xs of
        Some (Some s) \<Rightarrow> JStr (py_strip s)
      | _ \<Rightarrow> JNull)"

definition str_mapping :: "pyval \<Rightarrow> bool" where
  "str_mapping v =
     (case v of
        JDict kvs \<Rightarrow> list_all (\<lambda>(k, x). case x of JStr s \<Rightarrow> True | _ \<Rightarrow> False) kvs
      | _ \<Rightarrow> False)"

section \<open>Fixtures\<close>

text \<open>
  Seven pages, each with the result of every selector of the spider on its body (a
  selector that is not listed matches nothing), and \<^verbatim>\<open>json.loads\<close> on the texts that
  the pages embed: three decode, the broken one raises JSONDecodeError.
\<close>

definition selectors_of :: "(string \<times> string list) list \<Rightarrow> string \<Rightarrow> string list" where
  "selectors_of tbl q = (case map_of tbl q of None \<Rightarrow> [] | Some xs \<Rightarrow> xs)"

definition plain_page :: response where
  \<open>plain_page =
     \<lparr>url = ''https://www.target.com/p/widget/-/A-12345#lnk=sametab'',
      text = ''<html><body><span data-test="product-price">$5.00</span><span data-test="sale-price">$5.00</span></body></html>'',
      xpath = selectors_of
        [(''//span[@data-test="product-price"]/text()'', [''$5.00'']),
         (''//span[@data-test="product-price"]//text()'', [''$5.00'']),
         (''//span[contains(text(), "$")]/text()'', [''$5.00'', ''$5.00'']),
         (''//span[@data-test="sale-price"]/text()'', [''$5.00''])]\<rparr>\<close>

definition empty_page :: response where
  \<open>empty_page =
     \<lparr>url = ''https://www.target.com/p/widget/-/A-12345'',
      text = ''<html><body></body></html>'',
      xpath = selectors_of []\<rparr>\<close>

definition bare_page :: response where
  \<open>bare_page =
     \<lparr>url = ''https://www.target.com/p/widget/-/A-12345'',
      text = ''<html><body><span>$7.00</span></body></html>'',
      xpath = selectors_of [(''//span[contains(text(), "$")]/text()'', [''$7.00''])]\<rparr>\<close>

definition blob_script :: string where
  \<open>blob_script = ''window.__INITIAL_STATE__ = {"product": {"details": {"title": "Widget", "specifications": ["Color: red"]}, "price": {"current_retail_min": "$5.00", "formatted_current_price": "$5.00"}}};''\<close>

definition blob_page :: response where
  \<open>blob_page =
     \<lparr>url = ''https://www.target.com/p/widget/-/A-12345'',
      text = ''<html><head><script>'' @ blob_script @ ''</script></head><body></body></html>'',
      xpath = selectors_of [(script_xpath, [blob_script])]\<rparr>\<close>

definition array_script :: string where
  \<open>array_script = ''window.__INITIAL_STATE__ = [];''\<close>

definition array_page :: response where
  \<open>array_page =
     \<lparr>url = ''https://www.target.com/p/widget/-/A-12345'',
      text = ''<html><head><script>'' @ array_script @ ''</script></head><body></body></html>'',
      xpath = selectors_of [(script_xpath, [array_script])]\<rparr>\<close>

definition broken_script :: string where
  \<open>broken_script = ''window.__INITIAL_STATE__ = {"product": ;''\<close>

definition broken_page :: response where
  \<open>broken_page =
     \<lparr>url = ''https://www.target.com/p/widget/-/A-12345'',
      text = ''<html><head><script>'' @ broken_script @ ''</script></head><body></body></html>'',
      xpath = selectors_of [(script_xpath, [broken_script])]\<rparr>\<close>

definition unspaced_script :: string where
  \<open>unspaced_script = ''window.__INITIAL_STATE__={};''\<close>

definition unspaced_page :: response where
  \<open>unspaced_page =
     \<lparr>url = ''https://www.target.com/p/widget/-/A-12345'',
      text = ''<html><head><script>'' @ unspaced_script @ ''</script></head><body></body></html>'',
      xpath = selectors_of [(script_xpath, [unspaced_script])]\<rparr>\<close>

definition sale_script :: string where
  \<open>sale_script = ''window.__INITIAL_STATE__ = {"product": {"price": {"current_retail": 10, "current_retail_min": 8}}};''\<close>

definition sale_page :: response where
  \<open>sale_page =
     \<lparr>url = ''https://www.target.com/p/widget/-/A-12345'',
      text = ''<html><head><script>'' @ sale_script @ ''</script></head><body></body></html>'',
      xpath = selectors_of [(script_xpath, [sale_script])]\<rparr>\<close>

definition sale_data :: pyval where
  "sale_data =
     JDict [(''product'', JDict
       [(''price'', JDict [(''current_retail'', JInt 10), (''current_retail_min'', JInt 8)])])]"

definition blob_data :: pyval where
  "blob_data =
     JDict [(''product'', JDict
       [(''details'', JDict [(''title'', JStr ''Widget''),
                             (''specifications'', JList [JStr ''Color: red''])]),
        (''price'', JDict [(''current_retail_min'', JStr ''$5.00''),
                           (''formatted_current_price'', JStr ''$5.00'')])])]"

definition fixture_loads :: loads where
  \<open>fixture_loads json_data =
     (case map_of
        [(''{"product": {"details": {"title": "Widget", "specifications": ["Color: red"]}, "price": {"current_retail_min": "$5.00", "formatted_current_price": "$5.00"}}}'',
          blob_data),
         (''{"product": {"price": {"current_retail": 10, "current_retail_min": 8}}}'', sale_data),
         (''[]'', JList [])] json_data of
        Some data \<Rightarrow> Inr data
      | None \<Rightarrow> Inl JSONDecodeError)\<close>

definition spider0 :: spider where
  "spider0 =
     \<lparr>start_urls = [''https://www.target.com/p/widget/-/A-12345''], use_splash = True,
      logger = []\<rparr>"

section \<open>Properties\<close>

subsection \<open>Splitting\<close>

lemma split_aux_nonempty: "split_aux sep acc s \<noteq> []"
  by (induction sep acc s rule: split_aux.induct) auto

lemma hd_split_aux_hash:
  "hd (split_aux ''#'' acc s) = rev acc @ takeWhile (\<lambda>c. c \<noteq> CHR ''#'') s"
  by (induction "''#''" acc s rule: split_aux.induct) auto

lemma last_split_aux:
  assumes "sep \<noteq> []"
    and "\<And>rest. after_last sep (sep @ rest) =
                 Some (case after_last sep rest of Some t \<Rightarrow> t | None \<Rightarrow> rest)"
  shows "last (split_aux sep acc s) =
           (case after_last sep s of Some t \<Rightarrow> t | None \<Rightarrow> rev acc @ s)"
  using assms
proof (induction sep acc s rule: split_aux.induct)
  case (1 sep acc)
  then show ?case by simp
next
  case (2 sep acc c cs)
  note nonempty = "2.prems"(1) and step = "2.prems"(2)
  show ?case
  proof (cases "prefix sep (c # cs)")
    case True
    then obtain rest where eq: "c # cs = sep @ rest"
      by (auto simp: prefix_def)
    then have rest: "drop (length sep) (c # cs) = rest"
      by simp
    have "last (split_aux sep acc (c # cs)) = last (split_aux sep [] rest)"
      using True nonempty rest by (simp add: split_aux_nonempty del: drop_Suc_Cons)
    also have "\<dots> = (case after_last sep rest of Some t \<Rightarrow> t | None \<Rightarrow> rest)"
      using "2.IH"(1) [OF _ nonempty step] True nonempty rest by (simp split: option.splits)
    also have "\<dots> = (case after_last sep (c # cs) of Some t \<Rightarrow> t | None \<Rightarrow> rev acc @ c # cs)"
      unfolding eq step by simp
    finally show ?thesis .
  next
    case False
    then show ?thesis using "2.IH"(2) [OF _ nonempty step] by (simp split: option.splits)
  qed
qed

lemma after_last_marker_step:
  "after_last ''/-/A-'' (''/-/A-'' @ rest) =
     Some (case after_last ''/-/A-'' rest of Some t \<Rightarrow> t | None \<Rightarrow> rest)"
  by (simp split: option.splits)

lemma last_split_marker:
  "last (py_split s ''/-/A-'') = (case after_last ''/-/A-'' s of Some t \<Rightarrow> t | None \<Rightarrow> s)"
  unfolding py_split_def
  by (subst last_split_aux) (simp_all only: after_last_marker_step rev.simps append_Nil, simp)

lemma hd_split_hash: "hd (py_split s ''#'') = takeWhile (\<lambda>c. c \<noteq> CHR ''#'') s"
  by (simp add: py_split_def hd_split_aux_hash)

lemma tcin_expression: "hd (py_split (last (py_split u ''/-/A-'')) ''#'') = url_tcin u"
  by (simp add: last_split_marker hd_split_hash url_tcin_def truncate_at_def
      split: option.splits)

text \<open>What \<open>after_last\<close> returns is the text after an occurrence that no occurrence follows.\<close>

lemma after_last_None: "after_last sep s = None \<Longrightarrow> s \<noteq> pre @ sep @ post"
proof (induction s arbitrary: pre)
  case Nil
  then show ?case by (auto split: if_splits)
next
  case (Cons c cs)
  show ?case
  proof (cases pre)
    case Nil
    with Cons.prems show ?thesis by (auto split: option.splits if_splits)
  next
    case (Cons p ps)
    with Cons.prems Cons.IH [of ps] show ?thesis by (auto split: option.splits)
  qed
qed

lemma after_last_Some:
  "after_last sep s = Some t \<Longrightarrow>
     \<exists>pre. s = pre @ sep @ t \<and> (\<forall>pre' t'. s = pre' @ sep @ t' \<longrightarrow> length pre' \<le> length pre)"
proof (induction s arbitrary: t)
  case Nil
  then show ?case by (auto split: if_splits)
next
  case (Cons c cs)
  show ?case
  proof (cases "after_last sep cs")
    case None
    with Cons.prems have pre: "prefix sep (c # cs)" and t: "t = drop (length sep) (c # cs)"
      by (auto split: if_splits)
    from pre t have eq: "c # cs = [] @ sep @ t"
      by (auto simp: prefix_def)
    have "length pre' \<le> 0" if "c # cs = pre' @ sep @ t'" for pre' t'
    proof (cases pre')
      case Nil
      then show ?thesis by simp
    next
      case (Cons p ps)
      with that have "cs = ps @ sep @ t'" by simp
      with after_last_None [OF None] show ?thesis by blast
    qed
    with eq show ?thesis by (metis list.size(3))
  next
    case (Some t0)
    with Cons.prems have "t0 = t" by simp
    with Some Cons.IH obtain pre where
      eq: "cs = pre @ sep @ t" and
      mx: "\<forall>pre' t'. cs = pre' @ sep @ t' \<longrightarrow> length pre' \<le> length pre"
      by blast
    have "length pre' \<le> length (c # pre)" if "c # cs = pre' @ sep @ t'" for pre' t'
    proof (cases pre')
      case Nil
      then show ?thesis by simp
    next
      case (Cons p ps)
      with that have "cs = ps @ sep @ t'" by simp
      with mx have "length ps \<le> length pre" by blast
      with Cons show ?thesis by simp
    qed
    moreover have "c # cs = (c # pre) @ sep @ t" using eq by simp
    ultimately show ?thesis by blast
  qed
qed

subsection \<open>The two branches of parse\<close>

lemma parse_fallback_item:
  "snd (parse_fallback sp r item) =
     item\<lparr>product_name := Some (str_val (get r name_xpath)),
          categories := Some (fallback_categories r),
          model_no := Some (JStr (hd (py_split (last (py_split (url r) ''/-/A-'')) ''#''))),
          images := Some (JList (map JStr (getall r images_xpath))),
          specifications := Some (fst (fallback_specifications r)),
          description := Some (fallback_description r),
          price := Some (fst (fallback_price r)),
          discount_price := Some (fallback_discount_price r),
          sellers := Some (JList [JStr ''Target''])\<rparr>"
  by (simp add: parse_fallback_def Let_def split_def)

lemma fill_item_error: "fill_item data item = Inl e \<Longrightarrow> e = AttributeError"
  by (auto simp: fill_item_def dict_get_def Let_def split: sum.splits pyval.splits)

lemma parse_via_fallback:
  "takes_fallback ld r \<Longrightarrow>
     snd (parse ld sp r) = Inr (snd (parse_fallback sp' r (first_item r)))"
  by (auto simp: takes_fallback_def parse_def parse_json_def first_item_def Let_def split_def
        parse_fallback_item
      split: option.splits sum.splits if_splits)

lemma parse_via_blob:
  "snd (parse ld sp r) = map_sum id fst (fill_item data (first_item r))"
  if "blob_of ld r = Some data"
proof (cases "fill_item data (first_item r)")
  case (Inl e)
  then have "e = AttributeError" by (rule fill_item_error)
  with Inl that show ?thesis
    by (auto simp: blob_of_def parse_def parse_json_def first_item_def Let_def caught_def
        split: option.splits sum.splits if_splits)
next
  case (Inr res)
  with that show ?thesis
    by (auto simp: blob_of_def parse_def parse_json_def first_item_def Let_def split_def
        split: option.splits sum.splits if_splits)
qed

lemma parse_escapes:
  "get r script_xpath = Some s \<Longrightarrow> s \<noteq> [] \<Longrightarrow> load_blob ld s = Inl e \<Longrightarrow> \<not> caught e \<Longrightarrow>
     snd (parse ld sp r) = Inl e"
  by (simp add: parse_def parse_json_def Let_def)

lemma parse_emits_cases:
  assumes "snd (parse ld sp r) = Inr it"
  shows "takes_fallback ld r \<or> (\<exists>data. blob_of ld r = Some data)"
proof (cases "get r script_xpath")
  case None
  then show ?thesis by (simp add: takes_fallback_def)
next
  case (Some s)
  show ?thesis
  proof (cases "s = []")
    case True
    with Some show ?thesis by (simp add: takes_fallback_def)
  next
    case False
    show ?thesis
    proof (cases "load_blob ld s")
      case (Inl e)
      with Some False assms parse_escapes [of r s ld e sp] show ?thesis
        by (cases "caught e") (auto simp: takes_fallback_def)
    next
      case (Inr data)
      with Some False show ?thesis by (simp add: blob_of_def)
    qed
  qed
qed

lemma parse_result_independent: "snd (parse ld a r) = snd (parse ld b r)"
  by (simp add: parse_def parse_json_def Let_def split_def parse_fallback_item
      split: option.splits sum.splits)

lemma fill_item_tcin: "fill_item data item = Inr (it, lg) \<Longrightarrow> tcin_id it = tcin_id item"
  by (auto simp: fill_item_def dict_get_def Let_def split: sum.splits pyval.splits)

lemma fill_item_Inr:
  assumes "fill_item data item = Inr (it, lg)"
  shows "\<exists>product details prices.
           dict_get data ''product'' (JDict []) = Inr product \<and>
           dict_get product ''details'' (JDict []) = Inr (JDict details) \<and>
           dict_get product ''price'' (JDict []) = Inr (JDict prices) \<and>
           specifications it = Some (lookup details ''specifications'' (JList [])) \<and>
           price it =
             Some (py_or (lookup prices ''current_retail'' JNull)
                    (py_or (lookup prices ''formatted_current_price'' JNull)
                           (lookup prices ''price'' JNull))) \<and>
           discount_price it =
             Some (if py_ne (lookup prices ''current_retail_min'' JNull)
                            (lookup prices ''current_retail'' JNull)
                   then lookup prices ''current_retail_min'' JNull
                   else JNull)"
  using assms
  by (auto simp: fill_item_def Let_def split: sum.splits pyval.splits)

lemma parse_blob_emitted:
  assumes "blob_of ld r = Some data" and "snd (parse ld sp r) = Inr it"
  shows "\<exists>lg. fill_item data (first_item r) = Inr (it, lg)"
  using parse_via_blob [OF assms(1), of sp] assms(2)
  by (cases "fill_item data (first_item r)") auto

lemma parse_keeps_spider:
  "start_urls (fst (parse ld sp r)) = start_urls sp \<and>
   use_splash (fst (parse ld sp r)) = use_splash sp"
  by (auto simp: parse_def parse_fallback_def Let_def split_def log_to_def
      split: option.splits sum.splits)

subsection \<open>The specifications of the fallback\<close>

lemma dict_set_all: "list_all P d \<Longrightarrow> P (k, v) \<Longrightarrow> list_all P (dict_set d k v)"
  by (induction d) auto

lemma foldl_dict_set_all:
  "list_all P d \<Longrightarrow> list_all P kvs \<Longrightarrow> list_all P (foldl (\<lambda>d (k, v). dict_set d k v) d kvs)"
  by (induction kvs arbitrary: d) (auto simp: dict_set_all)

lemma dict_of_all: "list_all P kvs \<Longrightarrow> list_all P (dict_of kvs)"
  by (simp add: dict_of_def foldl_dict_set_all)

lemma str_mapping_dict_of:
  "list_all (\<lambda>(k, x). case x of JStr s \<Rightarrow> True | _ \<Rightarrow> False) kvs \<Longrightarrow> str_mapping (JDict (dict_of kvs))"
  by (simp add: str_mapping_def dict_of_all)

lemma fallback_specifications_mapping: "str_mapping (fst (fallback_specifications r))"
proof -
  have zipped: "str_mapping (JDict (dict_of (map (\<lambda>(spec, val). (py_strip spec, JStr (py_strip val))) xs)))"
    for xs :: "(string \<times> string) list"
    by (rule str_mapping_dict_of) (simp add: list_all_iff split_def)
  have keys: "str_mapping (JDict (dict_of (map (\<lambda>spec. (py_strip spec, JStr [])) ys)))"
    for ys :: "string list"
    by (rule str_mapping_dict_of) (simp add: list_all_iff)
  show ?thesis
    unfolding fallback_specifications_def Let_def
    by (simp add: zipped keys split: if_splits)
qed

subsection \<open>The price attempts\<close>

lemma str_truthy_yields: "str_truthy x = yields x"
  by (cases x) (auto simp: str_truthy_def yields_def)

lemma first_yield_Nil: "first_yield [] = JNull"
  by (simp add: first_yield_def)

lemma first_yield_Cons:
  "first_yield (x # xs) = (if yields x then strip_or_none x else first_yield xs)"
  by (cases x) (auto simp: first_yield_def yields_def strip_or_none_def)

lemma strip_or_none_no_yield: "\<not> yields x \<Longrightarrow> strip_or_none x = JNull"
  by (cases x) (auto simp: yields_def strip_or_none_def)

lemma price_xpaths_length: "length price_xpaths = 5"
  by (simp add: price_xpaths_def)

lemma price_xpaths_nth:
  "map (get r) price_xpaths =
     [get r (price_xpaths ! 0), get r (price_xpaths ! 1), get r (price_xpaths ! 2),
      get r (price_xpaths ! 3), get r (price_xpaths ! 4)]"
  by (simp add: price_xpaths_def)

lemma price_retry_step:
  "price_retry r k (p, lg) =
     (if yields p then (p, lg)
      else (get r (price_xpaths ! k),
            lg @ [(DEBUG, price_messages ! k, Value (str_val (get r (price_xpaths ! k))))]))"
  by (simp add: price_retry_def price_try_def str_truthy_yields Let_def)

lemma fallback_price_value:
  "fst (fallback_price r) = first_yield (map (get r) price_xpaths)"
  unfolding price_xpaths_nth
  by (simp add: fallback_price_def price_try_def price_retry_step first_yield_Cons
      first_yield_Nil strip_or_none_no_yield Let_def)

lemma less_5: "k < 5 \<longleftrightarrow> k = 0 \<or> k = 1 \<or> k = 2 \<or> k = 3 \<or> k = (4::nat)"
  by arith

lemma all_less_1: "(\<forall>j<(1::nat). P j) \<longleftrightarrow> P 0" by simp

lemma all_less_2: "(\<forall>j<(2::nat). P j) \<longleftrightarrow> P 0 \<and> P 1"
  by (auto simp: less_Suc_eq numeral_2_eq_2)

lemma all_less_3: "(\<forall>j<(3::nat). P j) \<longleftrightarrow> P 0 \<and> P 1 \<and> P 2"
  by (auto simp: less_Suc_eq numeral_3_eq_3 numeral_2_eq_2)

lemma all_less_4: "(\<forall>j<(4::nat). P j) \<longleftrightarrow> P 0 \<and> P 1 \<and> P 2 \<and> P 3"
proof -
  have "j < 4 \<longleftrightarrow> j = 0 \<or> j = 1 \<or> j = 2 \<or> j = (3::nat)" for j by arith
  then show ?thesis by auto
qed

lemma fallback_price_log:
  "snd (fallback_price r) =
     [(DEBUG, price_messages ! 0, Value (str_val (get r (price_xpaths ! 0))))] @
     (if yields (get r (price_xpaths ! 0)) then []
      else [(DEBUG, price_messages ! 1, Value (str_val (get r (price_xpaths ! 1))))] @
     (if yields (get r (price_xpaths ! 1)) then []
      else [(DEBUG, price_messages ! 2, Value (str_val (get r (price_xpaths ! 2))))] @
     (if yields (get r (price_xpaths ! 2)) then []
      else [(DEBUG, price_messages ! 3, Value (str_val (get r (price_xpaths ! 3))))] @
     (if yields (get r (price_xpaths ! 3)) then []
      else [(DEBUG, price_messages ! 4, Value (str_val (get r (price_xpaths ! 4))))])))) @
     [(DEBUG, ''Final extracted price: '', Value (fst (fallback_price r)))]"
  by (simp add: fallback_price_def price_try_def price_retry_step Let_def)

lemma price_messages_nth:
  "price_messages ! 0 = ''Price attempt 1 (data-test product-price): ''"
  "price_messages ! 1 = ''Price attempt 2 (class sc-4d225cde-1): ''"
  "price_messages ! Suc 0 = ''Price attempt 2 (class sc-4d225cde-1): ''"
  "price_messages ! 2 = ''Price attempt 3 (nested product-price): ''"
  "price_messages ! 3 = ''Price attempt 4 (generic price class): ''"
  "price_messages ! 4 = ''Price attempt 5 (any $): ''"
  by (simp_all add: price_messages_def)

lemma price_attempt_logged:
  assumes "k < 5"
  shows "(\<exists>v. (DEBUG, price_messages ! k, v) \<in> set (snd (fallback_price r))) \<longleftrightarrow>
         (\<forall>j<k. \<not> yields (get r (price_xpaths ! j)))"
proof -
  from assms consider "k = 0" | "k = 1" | "k = 2" | "k = 3" | "k = 4"
    by (auto simp: less_5)
  then show ?thesis
  proof cases
    case 1
    then show ?thesis by (auto simp: fallback_price_log [of r])
  next
    case 2
    then show ?thesis
      by (auto simp: fallback_price_log [of r] price_messages_nth all_less_1)
  next
    case 3
    then show ?thesis
      by (auto simp: fallback_price_log [of r] price_messages_nth all_less_2)
  next
    case 4
    then show ?thesis
      by (auto simp: fallback_price_log [of r] price_messages_nth all_less_3)
  next
    case 5
    then show ?thesis
      by (auto simp: fallback_price_log [of r] price_messages_nth all_less_4)
  qed
qed

lemma parse_fallback_log:
  "logger (fst (parse_fallback sp r item)) =
     logger sp @ snd (fallback_specifications r) @ snd (fallback_price r) @
     [(INFO, ''Final extracted item: '', Fields (snd (parse_fallback sp r item)))]"
  by (simp add: parse_fallback_def Let_def split_def log_to_def)

lemma new_log_fallback:
  assumes "takes_fallback ld r"
  shows "\<exists>route final.
           new_log ld sp r =
             [(DEBUG, ''Raw HTML response: '', Value (JStr (take 5000 (text r)))), route] @
             snd (fallback_specifications r) @ snd (fallback_price r) @ final \<and>
           fst route \<noteq> DEBUG \<and> (\<forall>e \<in> set final. fst e = INFO)"
  using assms
  by (auto simp: new_log_def takes_fallback_def parse_def parse_json_def Let_def split_def
        log_to_def parse_fallback_log
      split: option.splits sum.splits if_splits)

lemma specifications_log_levels: "e \<in> set (snd (fallback_specifications r)) \<Longrightarrow> fst e \<noteq> DEBUG"
  by (auto simp: fallback_specifications_def Let_def split_def split: if_splits)

lemma price_message_not_raw: "k < 5 \<Longrightarrow> price_messages ! k \<noteq> ''Raw HTML response: ''"
  by (auto simp: less_5 price_messages_nth)

lemma price_attempt_in_new_log:
  assumes "takes_fallback ld r" and "k < 5"
  shows "(DEBUG, price_messages ! k, v) \<in> set (new_log ld sp r) \<longleftrightarrow>
         (DEBUG, price_messages ! k, v) \<in> set (snd (fallback_price r))"
proof -
  from new_log_fallback [OF assms(1), of sp] obtain route final where
    eq: "new_log ld sp r =
           [(DEBUG, ''Raw HTML response: '', Value (JStr (take 5000 (text r)))), route] @
           snd (fallback_specifications r) @ snd (fallback_price r) @ final" and
    route: "fst route \<noteq> DEBUG" and final: "\<forall>e \<in> set final. fst e = INFO"
    by blast
  have "(DEBUG, price_messages ! k, v) \<notin> set final"
    using final by force
  moreover have "(DEBUG, price_messages ! k, v) \<notin> set (snd (fallback_specifications r))"
    using specifications_log_levels [of "(DEBUG, price_messages ! k, v)" r] by auto
  moreover have "(DEBUG, price_messages ! k, v) \<noteq> route"
    using route by auto
  ultimately show ?thesis
    using price_message_not_raw [OF assms(2)] by (simp add: eq)
qed

subsection \<open>Selectors that match nothing\<close>

lemma get_no_match: "xpath r q = [] \<Longrightarrow> get r q = None"
  by (simp add: get_def)

lemma categories_no_match: "xpath r categories_xpath = [] \<Longrightarrow> fallback_categories r = JList []"
  by (simp add: fallback_categories_def getall_def)

lemma specifications_no_match:
  "xpath r specs_xpath = [] \<or> xpath r specs_values_xpath = [] \<Longrightarrow>
   xpath r fallback_specs_xpath = [] \<Longrightarrow> fst (fallback_specifications r) = JDict []"
  by (auto simp: fallback_specifications_def getall_def dict_of_def Let_def)

lemma description_no_match:
  "xpath r description_xpath1 = [] \<Longrightarrow> xpath r description_xpath2 = [] \<Longrightarrow>
   xpath r description_xpath3 = [] \<Longrightarrow> fallback_description r = JStr []"
  by (simp add: fallback_description_def getall_def get_def blank_def str_val_def Let_def)

lemma price_no_match:
  assumes "\<forall>q \<in> set price_xpaths. xpath r q = []"
  shows "fst (fallback_price r) = JNull"
proof -
  have "get r (price_xpaths ! k) = None" if "k < 5" for k
    using assms that by (simp add: get_no_match price_xpaths_length)
  then show ?thesis
    by (simp add: fallback_price_value price_xpaths_nth first_yield_Cons first_yield_Nil
        yields_def)
qed

lemma discount_no_match:
  "xpath r sale_xpath1 = [] \<Longrightarrow> xpath r sale_xpath2 = [] \<Longrightarrow> fallback_discount_price r = JNull"
  by (simp add: fallback_discount_price_def get_no_match str_or_def strip_or_none_def)

subsection \<open>The fixtures\<close>

lemma blob_page_blob: "blob_of fixture_loads blob_page = Some blob_data"
  by code_simp

lemma blob_page_run:
  "map_sum id (\<lambda>it. (price it, discount_price it, specifications it))
     (snd (parse fixture_loads spider0 blob_page)) =
   Inr (Some (JStr ''$5.00''), Some (JStr ''$5.00''), Some (JList [JStr ''Color: red'']))"
  unfolding parse_via_blob [OF blob_page_blob]
  by code_simp

lemma sale_page_blob: "blob_of fixture_loads sale_page = Some sale_data"
  by code_simp

lemma sale_page_run:
  "map_sum id (\<lambda>it. (price it, discount_price it))
     (snd (parse fixture_loads spider0 sale_page)) =
   Inr (Some (JInt 10), Some (JInt 8))"
  unfolding parse_via_blob [OF sale_page_blob]
  by code_simp

lemma plain_page_fallback: "takes_fallback fixture_loads plain_page"
  by code_simp

lemma plain_page_run:
  "map_sum id (\<lambda>it. (price it, discount_price it))
     (snd (parse fixture_loads spider0 plain_page)) =
   Inr (Some (JStr ''$5.00''), Some (JStr ''$5.00''))"
  unfolding parse_via_fallback [OF plain_page_fallback, of spider0 spider0] parse_fallback_item
  by code_simp

lemma plain_page_attempts:
  "map (get plain_page) price_xpaths =
     [Some ''$5.00'', None, Some ''$5.00'', None, Some ''$5.00'']"
  by code_simp

lemma bare_page_fallback: "takes_fallback fixture_loads bare_page"
  by code_simp

lemma bare_page_attempts:
  "map (get bare_page) price_xpaths = [None, None, None, None, Some ''$7.00'']"
  by code_simp

lemma empty_page_fallback: "takes_fallback fixture_loads empty_page"
  by code_simp

lemma empty_page_selectors: "xpath empty_page q = []"
  by (simp add: empty_page_def selectors_of_def)

lemma broken_page_script: "get broken_page script_xpath = Some broken_script"
  by code_simp

lemma broken_script_load: "load_blob fixture_loads broken_script = Inl JSONDecodeError"
  by code_simp

lemma unspaced_page_script: "get unspaced_page script_xpath = Some unspaced_script"
  by code_simp

lemma unspaced_script_load: "load_blob fixture_loads unspaced_script = Inl IndexError"
  by code_simp

lemma array_page_script: "get array_page script_xpath = Some array_script"
  by code_simp

lemma array_script_load: "load_blob fixture_loads array_script = Inr (JList [])"
  by code_simp

lemma array_page_blob: "blob_of fixture_loads array_page = Some (JList [])"
  by code_simp

section \<open>The claims\<close>

text \<open>
  C6. Whenever \<open>parse\<close> emits an item, whichever branch produced it, its \<open>tcin_id\<close> is
  taken from the response URL: the text after the last occurrence of the marker
  \<^verbatim>\<open>/-/A-\<close> (the whole URL when the marker does not occur), cut at the first \<^verbatim>\<open>#\<close>.
\<close>

theorem tcin_id_from_url:
  assumes "snd (parse ld sp r) = Inr it"
  shows "tcin_id it = Some (JStr (url_tcin (url r)))"
proof -
  from parse_emits_cases [OF assms]
  consider "takes_fallback ld r" | data where "blob_of ld r = Some data"
    by blast
  then show ?thesis
  proof cases
    case 1
    from parse_via_fallback [OF 1, of sp sp] assms show ?thesis
      by (simp add: parse_fallback_item first_item_def tcin_expression)
  next
    case 2
    from parse_via_blob [OF 2, of sp] assms
    obtain lg where "fill_item data (first_item r) = Inr (it, lg)"
      by (cases "fill_item data (first_item r)") auto
    then have "tcin_id it = tcin_id (first_item r)"
      by (rule fill_item_tcin)
    then show ?thesis
      by (simp add: first_item_def tcin_expression)
  qed
qed

theorem tcin_id_from_url_witness:
  "\<exists>it. snd (parse fixture_loads spider0 plain_page) = Inr it \<and>
        tcin_id it = Some (JStr ''12345'')"
proof -
  have run: "snd (parse fixture_loads spider0 plain_page) =
     Inr (snd (parse_fallback spider0 plain_page (first_item plain_page)))"
    by (rule parse_via_fallback) code_simp
  have val: "url_tcin (url plain_page) = ''12345''"
    by code_simp
  from tcin_id_from_url [OF run] val show ?thesis
    using run by simp
qed

text \<open>
  C10. On the fallback branch the emitted item's \<open>model_no\<close> equals its \<open>tcin_id\<close>:
  both are the same expression over the response URL.
\<close>

theorem fallback_model_no_is_tcin_id:
  assumes "takes_fallback ld r"
  shows "\<exists>it. snd (parse ld sp r) = Inr it \<and> model_no it = tcin_id it \<and>
           model_no it = Some (JStr (url_tcin (url r)))"
  using parse_via_fallback [OF assms, of sp sp]
  by (simp add: parse_fallback_item first_item_def tcin_expression)

theorem fallback_model_no_is_tcin_id_witness:
  "takes_fallback fixture_loads plain_page \<and>
   (\<exists>it. snd (parse fixture_loads spider0 plain_page) = Inr it \<and> model_no it = tcin_id it \<and>
      model_no it = Some (JStr ''12345''))"
proof -
  have fb: "takes_fallback fixture_loads plain_page"
    by code_simp
  have val: "url_tcin (url plain_page) = ''12345''"
    by code_simp
  from fallback_model_no_is_tcin_id [OF fb, of spider0] val fb show ?thesis
    by simp
qed

text \<open>
  C7. On the JSON branch the price is chosen from the blob's price object in a fixed
  order: \<^verbatim>\<open>current_retail\<close> when it is present and truthy, otherwise
  \<^verbatim>\<open>formatted_current_price\<close> when that is, otherwise \<^verbatim>\<open>price\<close> (None when absent).
  The price is None only when none of the three is truthy.
\<close>

theorem json_price_priority:
  assumes "blob_of ld r = Some data" and "snd (parse ld sp r) = Inr it"
  shows "\<exists>product prices.
           dict_get data ''product'' (JDict []) = Inr product \<and>
           dict_get product ''price'' (JDict []) = Inr (JDict prices) \<and>
           (let cr = lookup prices ''current_retail'' JNull;
                fcp = lookup prices ''formatted_current_price'' JNull;
                p = lookup prices ''price'' JNull
            in price it = Some (if py_truthy cr then cr else if py_truthy fcp then fcp else p) \<and>
               (price it = Some JNull \<longrightarrow> \<not> py_truthy cr \<and> \<not> py_truthy fcp \<and> \<not> py_truthy p))"
proof -
  from parse_blob_emitted [OF assms] obtain lg where "fill_item data (first_item r) = Inr (it, lg)"
    by blast
  from fill_item_Inr [OF this] obtain product details prices where
    product: "dict_get data ''product'' (JDict []) = Inr product" and
    prices: "dict_get product ''price'' (JDict []) = Inr (JDict prices)" and
    pr: "price it =
           Some (py_or (lookup prices ''current_retail'' JNull)
                  (py_or (lookup prices ''formatted_current_price'' JNull)
                         (lookup prices ''price'' JNull)))"
    by blast
  have "let cr = lookup prices ''current_retail'' JNull;
            fcp = lookup prices ''formatted_current_price'' JNull;
            p = lookup prices ''price'' JNull
        in price it = Some (if py_truthy cr then cr else if py_truthy fcp then fcp else p) \<and>
           (price it = Some JNull \<longrightarrow> \<not> py_truthy cr \<and> \<not> py_truthy fcp \<and> \<not> py_truthy p)"
    using pr by (auto simp: py_or_def Let_def)
  with product prices show ?thesis by blast
qed

theorem json_price_priority_witness:
  "blob_of fixture_loads blob_page = Some blob_data \<and>
   (\<exists>it. snd (parse fixture_loads spider0 blob_page) = Inr it \<and>
      price it = Some (JStr ''$5.00''))"
proof -
  from blob_page_run obtain it where
    run: "snd (parse fixture_loads spider0 blob_page) = Inr it"
    by (cases "snd (parse fixture_loads spider0 blob_page)") auto
  from json_price_priority [OF blob_page_blob run]
  have "price it = Some (JStr ''$5.00'')"
    by (auto simp: blob_data_def dict_get_def lookup_def Let_def)
  with run blob_page_blob show ?thesis by blast
qed

text \<open>
  C3 (as amended). On the fallback branch the specifications are a dict from label strings
  to value strings. On the JSON branch they are whatever the blob holds under
  \<^verbatim>\<open>product.details.specifications\<close>, unchanged, with the default of line 55 when the
  key is absent; the fixture's blob holds a list there.
\<close>

theorem specifications_by_branch:
  assumes "snd (parse ld sp r) = Inr it"
  shows "(takes_fallback ld r \<longrightarrow> (\<exists>v. specifications it = Some v \<and> str_mapping v)) \<and>
         (\<forall>data. blob_of ld r = Some data \<longrightarrow>
            (\<exists>product details.
               dict_get data ''product'' (JDict []) = Inr product \<and>
               dict_get product ''details'' (JDict []) = Inr (JDict details) \<and>
               specifications it = Some (lookup details ''specifications'' (JList []))))"
proof (intro conjI impI allI)
  assume "takes_fallback ld r"
  from parse_via_fallback [OF this, of sp sp] assms
  have "specifications it = Some (fst (fallback_specifications r))"
    by (auto simp: parse_fallback_item)
  then show "\<exists>v. specifications it = Some v \<and> str_mapping v"
    by (simp add: fallback_specifications_mapping)
next
  fix data
  assume "blob_of ld r = Some data"
  from parse_blob_emitted [OF this assms] obtain lg where
    "fill_item data (first_item r) = Inr (it, lg)" by blast
  from fill_item_Inr [OF this]
  show "\<exists>product details.
          dict_get data ''product'' (JDict []) = Inr product \<and>
          dict_get product ''details'' (JDict []) = Inr (JDict details) \<and>
          specifications it = Some (lookup details ''specifications'' (JList []))"
    by blast
qed

theorem specifications_by_branch_witness:
  "(\<exists>it. snd (parse fixture_loads spider0 plain_page) = Inr it \<and>
      takes_fallback fixture_loads plain_page \<and>
      (\<exists>v. specifications it = Some v \<and> str_mapping v)) \<and>
   (\<exists>it. snd (parse fixture_loads spider0 blob_page) = Inr it \<and>
      blob_of fixture_loads blob_page = Some blob_data \<and>
      specifications it = Some (JList [JStr ''Color: red'']))"
proof -
  from plain_page_run obtain it1 where
    run1: "snd (parse fixture_loads spider0 plain_page) = Inr it1"
    by (cases "snd (parse fixture_loads spider0 plain_page)") auto
  from blob_page_run obtain it2 where
    run2: "snd (parse fixture_loads spider0 blob_page) = Inr it2"
    by (cases "snd (parse fixture_loads spider0 blob_page)") auto
  have fb: "takes_fallback fixture_loads plain_page"
    by (rule plain_page_fallback)
  from specifications_by_branch [OF run1] fb
  have "\<exists>v. specifications it1 = Some v \<and> str_mapping v" by blast
  moreover
  from specifications_by_branch [OF run2] blob_page_blob
  have "specifications it2 = Some (JList [JStr ''Color: red''])"
    by (auto simp: blob_data_def dict_get_def lookup_def)
  ultimately show ?thesis
    using run1 run2 fb blob_page_blob by blast
qed

theorem specifications_not_mapping_counterexample:
  "map_sum id specifications (snd (parse fixture_loads spider0 blob_page)) =
     Inr (Some (JList [JStr ''Color: red''])) \<and>
   \<not> str_mapping (JList [JStr ''Color: red''])"
proof -
  from blob_page_run
  have "map_sum id specifications (snd (parse fixture_loads spider0 blob_page)) =
          Inr (Some (JList [JStr ''Color: red'']))"
    by (cases "snd (parse fixture_loads spider0 blob_page)") auto
  then show ?thesis by (simp add: str_mapping_def)
qed

text \<open>
  C1 (as amended). On the JSON branch a discount price that is not None is the blob's
  \<^verbatim>\<open>current_retail_min\<close> and differs from the blob's \<^verbatim>\<open>current_retail\<close>; it differs
  from the emitted price whenever \<^verbatim>\<open>current_retail\<close> is truthy, which is when the price
  is \<^verbatim>\<open>current_retail\<close>. On the fallback branch the discount price is the stripped text
  of the first sale-price selector that yields one, and is not compared with the price.
  In both fixtures the two fields are the same string.
\<close>

theorem discount_price_by_branch:
  assumes "snd (parse ld sp r) = Inr it"
  shows "(takes_fallback ld r \<longrightarrow>
            discount_price it =
              Some (strip_or_none (str_or (get r sale_xpath1) (get r sale_xpath2)))) \<and>
         (\<forall>data. blob_of ld r = Some data \<longrightarrow>
            (\<exists>product prices.
               dict_get data ''product'' (JDict []) = Inr product \<and>
               dict_get product ''price'' (JDict []) = Inr (JDict prices) \<and>
               (\<forall>d. discount_price it = Some d \<and> d \<noteq> JNull \<longrightarrow>
                  d = lookup prices ''current_retail_min'' JNull \<and>
                  py_ne d (lookup prices ''current_retail'' JNull) \<and>
                  (py_truthy (lookup prices ''current_retail'' JNull) \<longrightarrow>
                     (\<exists>p. price it = Some p \<and> py_ne d p)))))"
proof (intro conjI impI allI)
  assume "takes_fallback ld r"
  from parse_via_fallback [OF this, of sp sp] assms
  show "discount_price it =
          Some (strip_or_none (str_or (get r sale_xpath1) (get r sale_xpath2)))"
    by (auto simp: parse_fallback_item fallback_discount_price_def)
next
  fix data
  assume "blob_of ld r = Some data"
  from parse_blob_emitted [OF this assms] obtain lg where
    "fill_item data (first_item r) = Inr (it, lg)" by blast
  from fill_item_Inr [OF this] obtain product details prices where
    product: "dict_get data ''product'' (JDict []) = Inr product" and
    prices: "dict_get product ''price'' (JDict []) = Inr (JDict prices)" and
    pr: "price it =
           Some (py_or (lookup prices ''current_retail'' JNull)
                  (py_or (lookup prices ''formatted_current_price'' JNull)
                         (lookup prices ''price'' JNull)))" and
    dp: "discount_price it =
           Some (if py_ne (lookup prices ''current_retail_min'' JNull)
                          (lookup prices ''current_retail'' JNull)
                 then lookup prices ''current_retail_min'' JNull
                 else JNull)"
    by blast
  have "\<forall>d. discount_price it = Some d \<and> d \<noteq> JNull \<longrightarrow>
          d = lookup prices ''current_retail_min'' JNull \<and>
          py_ne d (lookup prices ''current_retail'' JNull) \<and>
          (py_truthy (lookup prices ''current_retail'' JNull) \<longrightarrow>
             (\<exists>p. price it = Some p \<and> py_ne d p))"
    using pr dp by (auto simp: py_or_def split: if_splits)
  with product prices
  show "\<exists>product prices.
          dict_get data ''product'' (JDict []) = Inr product \<and>
          dict_get product ''price'' (JDict []) = Inr (JDict prices) \<and>
          (\<forall>d. discount_price it = Some d \<and> d \<noteq> JNull \<longrightarrow>
             d = lookup prices ''current_retail_min'' JNull \<and>
             py_ne d (lookup prices ''current_retail'' JNull) \<and>
             (py_truthy (lookup prices ''current_retail'' JNull) \<longrightarrow>
                (\<exists>p. price it = Some p \<and> py_ne d p)))"
    by blast
qed

theorem discount_price_by_branch_witness:
  "(\<exists>it. snd (parse fixture_loads spider0 plain_page) = Inr it \<and>
      takes_fallback fixture_loads plain_page \<and>
      discount_price it = Some (JStr ''$5.00'')) \<and>
   (\<exists>it. snd (parse fixture_loads spider0 sale_page) = Inr it \<and>
      blob_of fixture_loads sale_page = Some sale_data \<and>
      discount_price it = Some (JInt 8) \<and> JInt 8 \<noteq> JNull \<and>
      py_truthy (JInt 10) \<and> py_ne (JInt 8) (JInt 10) \<and>
      (\<exists>p. price it = Some p \<and> py_ne (JInt 8) p))"
proof -
  from plain_page_run obtain it1 where
    run1: "snd (parse fixture_loads spider0 plain_page) = Inr it1" and
    d1: "discount_price it1 = Some (JStr ''$5.00'')"
    by (cases "snd (parse fixture_loads spider0 plain_page)") auto
  from sale_page_run obtain it2 where
    run2: "snd (parse fixture_loads spider0 sale_page) = Inr it2" and
    d2: "discount_price it2 = Some (JInt 8)"
    by (cases "snd (parse fixture_loads spider0 sale_page)") auto
  have fb: "takes_fallback fixture_loads plain_page"
    by (rule plain_page_fallback)
  from discount_price_by_branch [OF run1] fb
  have "discount_price it1 =
          Some (strip_or_none (str_or (get plain_page sale_xpath1) (get plain_page sale_xpath2)))"
    by blast
  moreover
  from discount_price_by_branch [OF run2] sale_page_blob d2
  have "py_ne (JInt 8) (JInt 10) \<and> (\<exists>p. price it2 = Some p \<and> py_ne (JInt 8) p)"
    by (auto simp: sale_data_def dict_get_def lookup_def)
  ultimately show ?thesis
    using run1 run2 fb sale_page_blob d1 d2 by auto
qed

theorem discount_price_equals_price_counterexample:
  "map_sum id (\<lambda>it. (price it, discount_price it))
     (snd (parse fixture_loads spider0 blob_page)) =
     Inr (Some (JStr ''$5.00''), Some (JStr ''$5.00'')) \<and>
   map_sum id (\<lambda>it. (price it, discount_price it))
     (snd (parse fixture_loads spider0 plain_page)) =
     Inr (Some (JStr ''$5.00''), Some (JStr ''$5.00'')) \<and>
   JStr ''$5.00'' \<noteq> JNull \<and> \<not> py_ne (JStr ''$5.00'') (JStr ''$5.00'')"
proof -
  from blob_page_run
  have "map_sum id (\<lambda>it. (price it, discount_price it))
          (snd (parse fixture_loads spider0 blob_page)) =
        Inr (Some (JStr ''$5.00''), Some (JStr ''$5.00''))"
    by (cases "snd (parse fixture_loads spider0 blob_page)") auto
  with plain_page_run show ?thesis
    by (simp add: py_ne_def py_eq_def scalar_eq_def)
qed

text \<open>
  C2 (as amended). When the script is found but lines 47 and 48 raise IndexError, because
  the script has no \<^verbatim>\<open>window.__INITIAL_STATE__ = \<close> assignment, or JSONDecodeError,
  because the decoder refuses the text as JSON, \<open>parse\<close> runs the fallback and emits
  its item. Nothing else is recovered: a blob that decodes to something other than the
  expected dicts makes AttributeError escape, as the fixture's array does, and so does
  any other exception of the decoder (\<open>parse_escapes\<close>).
\<close>

theorem malformed_json_falls_back:
  assumes "get r script_xpath = Some s" and "s \<noteq> []" and "load_blob ld s = Inl e"
    and "e = JSONDecodeError \<or> e = IndexError"
  shows "takes_fallback ld r \<and>
         snd (parse ld sp r) = Inr (snd (parse_fallback sp r (first_item r)))"
proof -
  from assms have fb: "takes_fallback ld r"
    by (simp add: takes_fallback_def caught_def)
  with parse_via_fallback [OF fb, of sp sp] show ?thesis
    by simp
qed

theorem malformed_json_falls_back_witness:
  "get broken_page script_xpath = Some broken_script \<and> broken_script \<noteq> [] \<and>
   load_blob fixture_loads broken_script = Inl JSONDecodeError \<and>
   takes_fallback fixture_loads broken_page \<and>
   snd (parse fixture_loads spider0 broken_page) =
     Inr (snd (parse_fallback spider0 broken_page (first_item broken_page))) \<and>
   get unspaced_page script_xpath = Some unspaced_script \<and> unspaced_script \<noteq> [] \<and>
   load_blob fixture_loads unspaced_script = Inl IndexError \<and>
   takes_fallback fixture_loads unspaced_page \<and>
   snd (parse fixture_loads spider0 unspaced_page) =
     Inr (snd (parse_fallback spider0 unspaced_page (first_item unspaced_page)))"
proof -
  have ne1: "broken_script \<noteq> []" by (simp add: broken_script_def)
  have ne2: "unspaced_script \<noteq> []" by (simp add: unspaced_script_def)
  from malformed_json_falls_back [OF broken_page_script ne1 broken_script_load, of spider0]
    malformed_json_falls_back [OF unspaced_page_script ne2 unspaced_script_load, of spider0]
  show ?thesis
    using broken_page_script ne1 broken_script_load unspaced_page_script ne2
      unspaced_script_load
    by simp
qed

theorem unmappable_json_escapes_counterexample:
  "get array_page script_xpath = Some array_script \<and> array_script \<noteq> [] \<and>
   load_blob fixture_loads array_script = Inr (JList []) \<and>
   snd (parse fixture_loads spider0 array_page) = Inl AttributeError"
proof -
  have "snd (parse fixture_loads spider0 array_page) = Inl AttributeError"
    unfolding parse_via_blob [OF array_page_blob]
    by (simp add: fill_item_def dict_get_def)
  then show ?thesis
    using array_page_script array_script_load by (simp add: array_script_def)
qed

text \<open>
  C5 (as amended). Construction raises ValueError exactly when the URL is missing or the
  empty string; with a non-empty URL it succeeds and \<open>start_urls\<close> is that one URL.
  The empty string is an argument that was provided, and is refused.
\<close>

theorem init_requires_nonempty_url:
  "(init splash arg = Inl ValueError \<longleftrightarrow> arg = None \<or> arg = Some []) \<and>
   (\<forall>u. arg = Some u \<and> u \<noteq> [] \<longrightarrow>
      (\<exists>self. init splash arg = Inr self \<and> start_urls self = [u]))"
  by (auto simp: init_def Let_def log_to_def split: option.splits)

theorem init_requires_nonempty_url_witness:
  "init True None = Inl ValueError \<and>
   (\<exists>self. init True (Some ''https://www.target.com/p/widget/-/A-12345'') = Inr self \<and>
      start_urls self = [''https://www.target.com/p/widget/-/A-12345''])"
  using init_requires_nonempty_url [of True None]
    init_requires_nonempty_url [of True "Some ''https://www.target.com/p/widget/-/A-12345''"]
  by simp

theorem init_empty_url_counterexample:
  "\<not> (init True (Some []) = Inl ValueError \<longleftrightarrow> Some [] = (None :: string option))"
  by (simp add: init_def)

text \<open>
  C9. The emitted item, or the escaping exception, depends on the response and the
  decoder only: not on the spider's state, and so not on the log that earlier runs
  left behind. A second run on the spider as the first run left it gives the same
  result, and a run changes nothing of the spider but its log.
\<close>

theorem parse_deterministic:
  "snd (parse ld sp r) = snd (parse ld sp' r) \<and>
   snd (parse ld (fst (parse ld sp r)) r) = snd (parse ld sp r) \<and>
   start_urls (fst (parse ld sp r)) = start_urls sp \<and>
   use_splash (fst (parse ld sp r)) = use_splash sp"
proof -
  have indep: "snd (parse ld a r) = snd (parse ld b r)" for a b
    by (rule parse_result_independent)
  from indep [of sp sp'] indep [of "fst (parse ld sp r)" sp] parse_keeps_spider [of ld sp r]
  show ?thesis by simp
qed

theorem parse_deterministic_witness:
  "snd (parse fixture_loads (fst (parse fixture_loads spider0 plain_page)) plain_page) =
   snd (parse fixture_loads spider0 plain_page)"
  using parse_deterministic [of fixture_loads spider0 plain_page spider0]
  by simp

text \<open>
  C8. On the fallback branch the price comes from five selector attempts in a fixed
  order. The emitted price is the stripped value of the first attempt that yields one,
  or None when none does; and an attempt is evaluated, its debug message logged by the
  run, exactly when every earlier attempt yielded nothing.
\<close>

theorem fallback_price_attempts:
  assumes "takes_fallback ld r"
  shows "length price_xpaths = 5 \<and>
         (\<exists>it. snd (parse ld sp r) = Inr it \<and>
            price it = Some (first_yield (map (get r) price_xpaths))) \<and>
         (\<forall>k<5. (\<exists>v. (DEBUG, price_messages ! k, v) \<in> set (new_log ld sp r)) \<longleftrightarrow>
                 (\<forall>j<k. \<not> yields (get r (price_xpaths ! j))))"
proof -
  have "length price_xpaths = 5"
    by (rule price_xpaths_length)
  moreover have "\<exists>it. snd (parse ld sp r) = Inr it \<and>
                  price it = Some (first_yield (map (get r) price_xpaths))"
    using parse_via_fallback [OF assms, of sp sp]
    by (simp add: parse_fallback_item fallback_price_value)
  moreover have "(\<exists>v. (DEBUG, price_messages ! k, v) \<in> set (new_log ld sp r)) \<longleftrightarrow>
                 (\<forall>j<k. \<not> yields (get r (price_xpaths ! j)))" if "k < 5" for k
    using price_attempt_logged [OF that, of r]
    by (simp add: price_attempt_in_new_log [OF assms that])
  ultimately show ?thesis by blast
qed

theorem fallback_price_attempts_witness:
  "takes_fallback fixture_loads bare_page \<and>
   (\<exists>it. snd (parse fixture_loads spider0 bare_page) = Inr it \<and>
      price it = Some (JStr ''$7.00'')) \<and>
   (\<exists>v. (DEBUG, price_messages ! 4, v) \<in> set (new_log fixture_loads spider0 bare_page)) \<and>
   takes_fallback fixture_loads plain_page \<and>
   (\<exists>it. snd (parse fixture_loads spider0 plain_page) = Inr it \<and>
      price it = Some (JStr ''$5.00'')) \<and>
   \<not> (\<exists>v. (DEBUG, price_messages ! 1, v) \<in> set (new_log fixture_loads spider0 plain_page))"
proof -
  have fb1: "takes_fallback fixture_loads bare_page"
    by (rule bare_page_fallback)
  have fb2: "takes_fallback fixture_loads plain_page"
    by (rule plain_page_fallback)
  have nth1: "get bare_page (price_xpaths ! j) = map (get bare_page) price_xpaths ! j"
    if "j < 5" for j
    using that by (simp add: price_xpaths_length)
  have nth2: "get plain_page (price_xpaths ! 0) = map (get plain_page) price_xpaths ! 0"
    by (simp add: price_xpaths_length)
  have none4: "\<forall>j<4. \<not> yields (get bare_page (price_xpaths ! j))"
    by (simp add: all_less_4 nth1 bare_page_attempts yields_def)
  have some0: "yields (get plain_page (price_xpaths ! 0))"
    by (simp add: nth2 plain_page_attempts yields_def)
  have v1: "first_yield (map (get bare_page) price_xpaths) = JStr ''$7.00''"
    unfolding bare_page_attempts by code_simp
  have v2: "first_yield (map (get plain_page) price_xpaths) = JStr ''$5.00''"
    unfolding plain_page_attempts by code_simp
  from fallback_price_attempts [OF fb1, of spider0] none4 v1
  have "(\<exists>it. snd (parse fixture_loads spider0 bare_page) = Inr it \<and>
           price it = Some (JStr ''$7.00'')) \<and>
        (\<exists>v. (DEBUG, price_messages ! 4, v) \<in> set (new_log fixture_loads spider0 bare_page))"
    by simp
  moreover
  from fallback_price_attempts [OF fb2, of spider0] some0 v2
  have "(\<exists>it. snd (parse fixture_loads spider0 plain_page) = Inr it \<and>
           price it = Some (JStr ''$5.00'')) \<and>
        \<not> (\<exists>v. (DEBUG, price_messages ! 1, v) \<in> set (new_log fixture_loads spider0 plain_page))"
    by (auto simp: all_less_1)
  ultimately show ?thesis using fb1 fb2 by blast
qed

text \<open>
  C4. On the fallback branch an item is always emitted, and a field whose selectors
  match nothing is None (product name, price, discount price), the empty list
  (categories, images), the empty dict (specifications) or the empty string
  (description).
\<close>

theorem fallback_missing_selectors:
  assumes "takes_fallback ld r"
  shows "\<exists>it. snd (parse ld sp r) = Inr it \<and>
           (xpath r name_xpath = [] \<longrightarrow> product_name it = Some JNull) \<and>
           (xpath r categories_xpath = [] \<longrightarrow> categories it = Some (JList [])) \<and>
           (xpath r images_xpath = [] \<longrightarrow> images it = Some (JList [])) \<and>
           ((xpath r specs_xpath = [] \<or> xpath r specs_values_xpath = []) \<and>
            xpath r fallback_specs_xpath = [] \<longrightarrow> specifications it = Some (JDict [])) \<and>
           (xpath r description_xpath1 = [] \<and> xpath r description_xpath2 = [] \<and>
            xpath r description_xpath3 = [] \<longrightarrow> description it = Some (JStr [])) \<and>
           ((\<forall>q \<in> set price_xpaths. xpath r q = []) \<longrightarrow> price it = Some JNull) \<and>
           (xpath r sale_xpath1 = [] \<and> xpath r sale_xpath2 = [] \<longrightarrow>
              discount_price it = Some JNull)"
proof -
  show ?thesis
    unfolding parse_via_fallback [OF assms, of sp sp] parse_fallback_item
    by (simp add: get_no_match str_val_def categories_no_match getall_def
        specifications_no_match description_no_match price_no_match discount_no_match)
qed

theorem fallback_missing_selectors_witness:
  "takes_fallback fixture_loads empty_page \<and>
   (\<exists>it. snd (parse fixture_loads spider0 empty_page) = Inr it \<and>
      product_name it = Some JNull \<and> categories it = Some (JList []) \<and>
      images it = Some (JList []) \<and> specifications it = Some (JDict []) \<and>
      description it = Some (JStr []) \<and> price it = Some JNull \<and>
      discount_price it = Some JNull)"
proof -
  have fb: "takes_fallback fixture_loads empty_page"
    by (rule empty_page_fallback)
  from fallback_missing_selectors [OF fb, of spider0] fb show ?thesis
    by (simp add: empty_page_selectors)
qed

end
